theory Spec2Isabelle
  imports Complex_Main "HOL-Library.AList"
begin

section \<open>Python values\<close>

text \<open>
  The plugin \<^verbatim>\<open>vscode_progress.py\<close> handles the values the orchestration engine hands
  to its hooks: \<^verbatim>\<open>None\<close>, booleans, integers, floats, strings, lists, dicts and objects
  of other classes. A dict is an association list in insertion order; its keys are
  strings, as in every mapping the plugin builds or receives (module results, task
  arguments, statistics). A float is the rational number it denotes, and float
  arithmetic is exact arithmetic on these. An object of another class is known by the
  texts \<^verbatim>\<open>str\<close> and \<^verbatim>\<open>repr\<close> give for it, in this order.
\<close>

datatype pyval =
    PNone
  | PBool bool
  | PInt int
  | PFloat rat
  | PStr string
  | PList "pyval list"
  | PDict "(string \<times> pyval) list"
  | PObj string string

type_synonym pydict = "(string \<times> pyval) list"

definition dquote :: char where "dquote = CHR 0x22"
definition squote :: char where "squote = CHR 0x27"
definition bslash :: char where "bslash = CHR 0x5C"
definition newline :: char where "newline = CHR 0x0A"

subsection \<open>Text of a value: \<^verbatim>\<open>str\<close> and \<^verbatim>\<open>repr\<close>\<close>

definition digit_char :: "nat \<Rightarrow> char" where
  "digit_char n = ''0123456789abcdef'' ! (n mod 16)"

fun show_nat :: "nat \<Rightarrow> string" where
  "show_nat n = (if n < 10 then [digit_char n] else show_nat (n div 10) @ [digit_char (n mod 10)])"

declare show_nat.simps [simp del]

definition show_int :: "int \<Rightarrow> string" where
  "show_int i = (if i < 0 then CHR ''-'' # show_nat (nat (- i)) else show_nat (nat i))"

definition hex2 :: "char \<Rightarrow> string" where
  "hex2 c = [digit_char (of_char c div 16), digit_char (of_char c mod 16)]"

text \<open>
  \<^verbatim>\<open>repr\<close> of a string: single quotes, unless the string has a single quote and no
  double quote; the quote and the backslash are escaped, tab, newline and carriage
  return are written \<^verbatim>\<open>\t\<close>, \<^verbatim>\<open>\n\<close>, \<^verbatim>\<open>\r\<close>, and every other non-printable
  character below 256 is written \<^verbatim>\<open>\xNN\<close>.
\<close>

definition printable :: "char \<Rightarrow> bool" where
  "printable c = (let n = (of_char c :: nat) in
     (32 \<le> n \<and> n < 127) \<or> (161 \<le> n \<and> n \<noteq> 173))"

definition repr_char :: "char \<Rightarrow> char \<Rightarrow> string" where
  "repr_char q c =
     (if c = q \<or> c = bslash then [bslash, c]
      else if c = CHR 0x09 then [bslash, CHR ''t'']
      else if c = CHR 0x0A then [bslash, CHR ''n'']
      else if c = CHR 0x0D then [bslash, CHR ''r'']
      else if printable c then [c]
      else [bslash, CHR ''x''] @ hex2 c)"

definition repr_str :: "string \<Rightarrow> string" where
  "repr_str s =
     (let q = (if squote \<in> set s \<and> dquote \<notin> set s then dquote else squote)
      in [q] @ concat (map (repr_char q) s) @ [q])"

fun join :: "string \<Rightarrow> string list \<Rightarrow> string" where
  "join sep [] = []"
| "join sep [x] = x"
| "join sep (x # y # ys) = x @ sep @ join sep (y # ys)"

text \<open>
  \<^verbatim>\<open>repr\<close> of a value. The text of a float is the interpreter's (\<^verbatim>\<open>float.__repr__\<close>,
  the shortest decimal that reads back as the same float), taken as the parameter
  \<open>fr\<close>.
\<close>

fun py_repr :: "(rat \<Rightarrow> string) \<Rightarrow> pyval \<Rightarrow> string" where
  "py_repr fr PNone = ''None''"
| "py_repr fr (PBool b) = (if b then ''True'' else ''False'')"
| "py_repr fr (PInt i) = show_int i"
| "py_repr fr (PFloat q) = fr q"
| "py_repr fr (PStr s) = repr_str s"
| "py_repr fr (PList xs) = ''['' @ join '', '' (map (py_repr fr) xs) @ '']''"
| "py_repr fr (PDict kvs) =
     ''{'' @ join '', '' (map (\<lambda>kv. repr_str (fst kv) @ '': '' @ py_repr fr (snd kv)) kvs) @ ''}''"
| "py_repr fr (PObj s r) = r"

definition py_str :: "(rat \<Rightarrow> string) \<Rightarrow> pyval \<Rightarrow> string" where
  "py_str fr v = (case v of PStr s \<Rightarrow> s | PObj s r \<Rightarrow> s | _ \<Rightarrow> py_repr fr v)"

subsection \<open>Type tests and dict operations\<close>

fun is_str :: "pyval \<Rightarrow> bool" where
  "is_str (PStr s) = True"
| "is_str v = False"

fun str_val :: "pyval \<Rightarrow> string" where
  "str_val (PStr s) = s"
| "str_val v = []"

fun is_dict_or_list :: "pyval \<Rightarrow> bool" where
  "is_dict_or_list (PDict d) = True"
| "is_dict_or_list (PList xs) = True"
| "is_dict_or_list v = False"

text \<open>\<^verbatim>\<open>d[key] = value\<close>: replaces the value of a key already there, else appends.\<close>

definition dict_set :: "pydict \<Rightarrow> string \<Rightarrow> pyval \<Rightarrow> pydict" where
  "dict_set d key v = AList.update key v d"

text \<open>\<^verbatim>\<open>d.get(key, default)\<close>.\<close>

definition dict_get :: "pydict \<Rightarrow> string \<Rightarrow> pyval \<Rightarrow> pyval" where
  "dict_get d key dflt = (case map_of d key of None \<Rightarrow> dflt | Some v \<Rightarrow> v)"

section \<open>The result sanitizer\<close>

definition omit_keys :: "string set" where
  "omit_keys = {''ansible_facts'', ''ansible_env''}"

definition truncated_marker :: string where
  "truncated_marker = newline # ''... [truncated]''"

definition omitted_marker :: string where
  "omitted_marker = ''[large data omitted]''"

text \<open>The loop of \<^verbatim>\<open>_sanitize_result\<close> over \<^verbatim>\<open>result.items()\<close>, building \<^verbatim>\<open>sanitized\<close>.\<close>

fun sanitize_items :: "(rat \<Rightarrow> string) \<Rightarrow> pydict \<Rightarrow> pydict \<Rightarrow> pydict" where
  "sanitize_items fr [] sanitized = sanitized"
| "sanitize_items fr ((key, value) # items) sanitized =
     (if key \<in> omit_keys then sanitize_items fr items sanitized
      else if is_str value \<and> length (str_val value) > 5000 then
        sanitize_items fr items
          (dict_set sanitized key (PStr (take 5000 (str_val value) @ truncated_marker)))
      else if is_dict_or_list value \<and> length (py_str fr value) > 10000 then
        sanitize_items fr items (dict_set sanitized key (PStr omitted_marker))
      else sanitize_items fr items (dict_set sanitized key value))"

definition sanitize_result :: "(rat \<Rightarrow> string) \<Rightarrow> pyval \<Rightarrow> pyval" where
  "sanitize_result fr result =
     (case result of PDict items \<Rightarrow> PDict (sanitize_items fr items []) | _ \<Rightarrow> result)"

text \<open>What one key of a sanitized mapping holds, if anything.\<close>

definition lookup :: "pyval \<Rightarrow> string \<Rightarrow> pyval option" where
  "lookup d key = (case d of PDict items \<Rightarrow> map_of items key | _ \<Rightarrow> None)"

definition keys :: "pyval \<Rightarrow> string set" where
  "keys d = (case d of PDict items \<Rightarrow> fst ` set items | _ \<Rightarrow> {})"

section \<open>Serialisation: \<^verbatim>\<open>json.dumps(..., default=str)\<close>\<close>

text \<open>
  A string is written between double quotes; \<^verbatim>\<open>ensure_ascii\<close> is on, so every
  character outside the range from space to tilde is escaped, the named escapes first.
\<close>

definition json_escape_char :: "char \<Rightarrow> string" where
  "json_escape_char c =
     (if c = dquote then [bslash, dquote]
      else if c = bslash then [bslash, bslash]
      else if c = CHR 0x0A then [bslash, CHR ''n'']
      else if c = CHR 0x0D then [bslash, CHR ''r'']
      else if c = CHR 0x09 then [bslash, CHR ''t'']
      else if c = CHR 0x0C then [bslash, CHR ''f'']
      else if c = CHR 0x08 then [bslash, CHR ''b'']
      else if 32 \<le> (of_char c :: nat) \<and> (of_char c :: nat) < 127 then [c]
      else [bslash, CHR ''u'', CHR ''0'', CHR ''0''] @ hex2 c)"

definition json_str :: "string \<Rightarrow> string" where
  "json_str s = [dquote] @ concat (map json_escape_char s) @ [dquote]"

text \<open>
  The encoder with its default separators. A value of no JSON type goes through
  \<^verbatim>\<open>default=str\<close> and is written as the string \<^verbatim>\<open>str\<close> gives.
\<close>

fun json_dumps :: "(rat \<Rightarrow> string) \<Rightarrow> pyval \<Rightarrow> string" where
  "json_dumps fr PNone = ''null''"
| "json_dumps fr (PBool b) = (if b then ''true'' else ''false'')"
| "json_dumps fr (PInt i) = show_int i"
| "json_dumps fr (PFloat q) = fr q"
| "json_dumps fr (PStr s) = json_str s"
| "json_dumps fr (PList xs) = ''['' @ join '', '' (map (json_dumps fr) xs) @ '']''"
| "json_dumps fr (PDict kvs) =
     ''{'' @ join '', '' (map (\<lambda>kv. json_str (fst kv) @ '': '' @ json_dumps fr (snd kv)) kvs) @ ''}''"
| "json_dumps fr (PObj s r) = json_str s"

text \<open>\<^verbatim>\<open>msg.encode('utf-8')\<close> on characters below 256: one byte below 128, else two.\<close>

definition utf8_char :: "char \<Rightarrow> string" where
  "utf8_char c =
     (if (of_char c :: nat) < 128 then [c]
      else [char_of (192 + (of_char c :: nat) div 64), char_of (128 + (of_char c :: nat) mod 64)])"

definition encode_utf8 :: "string \<Rightarrow> string" where
  "encode_utf8 s = concat (map utf8_char s)"

section \<open>The bridge: state, environment, hooks\<close>

text \<open>
  The exceptions of the model, all of them subclasses of \<^verbatim>\<open>Exception\<close>.
  \<open>OSError\<close> stands for every failure of the socket (broken pipe, timeout, closed
  peer).
\<close>

datatype exn = KeyError | OSError | TypeError | ValueError

text \<open>The attributes of \<^verbatim>\<open>CallbackModule\<close> set in \<^verbatim>\<open>__init__\<close>.\<close>

record bridge =
  sock :: "nat option"
  start_time :: "rat option"
  play_start_time :: "rat option"
  task_start_times :: "string \<rightharpoonup> rat"

text \<open>
  What one hook invocation reads from outside: the clock \<^verbatim>\<open>time.time()\<close>, the text of
  \<^verbatim>\<open>datetime.utcnow().isoformat()\<close>, what \<^verbatim>\<open>sendall\<close> does with the bytes it is given
  (\<open>None\<close> when it returns, the exception it raises otherwise), and the interpreter's
  text of a float.
\<close>

record env =
  now :: rat
  utcnow_iso :: string
  sendall :: "string \<Rightarrow> exn option"
  float_repr :: "rat \<Rightarrow> string"

text \<open>
  A method returns the exception that leaves it, or the bridge afterwards with the
  byte strings that \<^verbatim>\<open>sendall\<close> accepted during the call. \<^verbatim>\<open>except Exception: pass\<close>
  in \<^verbatim>\<open>_send\<close> turns an exception of the \<^verbatim>\<open>try\<close> body into a return with nothing
  written.
\<close>

type_synonym outcome = "exn + (bridge \<times> string list)"

text \<open>
  \<^verbatim>\<open>__init__\<close>: the endpoint is the value of \<^verbatim>\<open>ANSIBLE_ENV_SOCKET\<close>; \<open>connect\<close> gives
  the connected socket or the exception raised on the way.
\<close>

definition init :: "string option \<Rightarrow> (string \<Rightarrow> exn + nat) \<Rightarrow> bridge" where
  "init socket_path connect =
     (let self = \<lparr>sock = None, start_time = None, play_start_time = None,
                  task_start_times = Map.empty\<rparr>
      in case socket_path of
           None \<Rightarrow> self
         | Some path \<Rightarrow>
             if path = [] then self
             else (case connect path of Inr s \<Rightarrow> self\<lparr>sock := Some s\<rparr> | Inl x \<Rightarrow> self\<lparr>sock := None\<rparr>))"

text \<open>Truth value of a value, and \<^verbatim>\<open>a or b\<close>.\<close>

fun truthy :: "pyval \<Rightarrow> bool" where
  "truthy PNone = False"
| "truthy (PBool b) = b"
| "truthy (PInt i) = (i \<noteq> 0)"
| "truthy (PFloat q) = (q \<noteq> 0)"
| "truthy (PStr s) = (s \<noteq> [])"
| "truthy (PList xs) = (xs \<noteq> [])"
| "truthy (PDict kvs) = (kvs \<noteq> [])"
| "truthy (PObj s r) = True"

definition py_or :: "pyval \<Rightarrow> pyval \<Rightarrow> pyval" where
  "py_or a b = (if truthy a then a else b)"

subsection \<open>\<^verbatim>\<open>_send\<close>\<close>

definition envelope :: "env \<Rightarrow> string \<Rightarrow> pyval \<Rightarrow> pyval" where
  "envelope e event_type data =
     PDict [(''type'', PStr event_type),
            (''timestamp'', PStr (utcnow_iso e @ ''Z'')),
            (''data'', py_or data (PDict []))]"

text \<open>The line \<^verbatim>\<open>msg\<close>: the encoder's text of the envelope and a newline.\<close>

definition message :: "env \<Rightarrow> string \<Rightarrow> pyval \<Rightarrow> string" where
  "message e event_type data = json_dumps (float_repr e) (envelope e event_type data) @ [newline]"

text \<open>The body of the \<^verbatim>\<open>try\<close>: the bytes written, or the exception raised.\<close>

definition send_try :: "env \<Rightarrow> string \<Rightarrow> pyval \<Rightarrow> exn + string" where
  "send_try e event_type data =
     (let msg = message e event_type data;
          bytes = encode_utf8 msg
      in case sendall e bytes of Some x \<Rightarrow> Inl x | None \<Rightarrow> Inr bytes)"

definition send :: "bridge \<Rightarrow> env \<Rightarrow> string \<Rightarrow> pyval \<Rightarrow> outcome" where
  "send self e event_type data =
     (if sock self = None then Inr (self, [])
      else case send_try e event_type data of
             Inr bytes \<Rightarrow> Inr (self, [bytes])
           | Inl x \<Rightarrow> Inr (self, []))"

subsection \<open>\<^verbatim>\<open>_host_result\<close>\<close>

text \<open>What the hooks read of a task and of a task result.\<close>

record task =
  task_name :: string
  task_uuid :: string
  task_action :: string
  task_args :: "pydict option"
  task_path :: "string option"

record task_result =
  host_name :: string
  result_task :: task
  result_dict :: pydict

text \<open>\<^verbatim>\<open>round(x, 2)\<close> on a float: to the nearest hundredth, a tie to the even one.\<close>

definition round_half_even :: "rat \<Rightarrow> int" where
  "round_half_even x =
     (let f = \<lfloor>x\<rfloor>; r = x - of_int f
      in if r < 1 / 2 then f else if 1 / 2 < r then f + 1 else if even f then f else f + 1)"

definition round2 :: "rat \<Rightarrow> rat" where
  "round2 x = of_int (round_half_even (x * 100)) / 100"

text \<open>
  The text \<^verbatim>\<open>float.__repr__\<close> gives for a whole number of hundredths of magnitude below
  \<open>10^16\<close>: \<^verbatim>\<open>2.34\<close>, \<^verbatim>\<open>0.5\<close>, \<^verbatim>\<open>5.0\<close>, \<^verbatim>\<open>-1.07\<close>. It stands for the parameter
  \<open>fr\<close> in the examples, whose floats are all of this kind.
\<close>

definition repr_hundredths :: "rat \<Rightarrow> string" where
  "repr_hundredths q =
     (let k = round_half_even (q * 100); a = nat \<bar>k\<bar>; frac = a mod 100
      in (if k < 0 then ''-'' else []) @ show_nat (a div 100) @ ''.'' @
         (if frac mod 10 = 0 then [digit_char (frac div 10)]
          else [digit_char (frac div 10), digit_char (frac mod 10)]))"

text \<open>\<^verbatim>\<open>round(duration, 2)\<close>: a float to two decimals, an integer as it is.\<close>

fun py_round2 :: "pyval \<Rightarrow> pyval" where
  "py_round2 (PFloat d) = PFloat (round2 d)"
| "py_round2 v = v"

text \<open>\<^verbatim>\<open>d[key]\<close> on the timing table.\<close>

definition subscript :: "(string \<rightharpoonup> rat) \<Rightarrow> string \<Rightarrow> exn + rat" where
  "subscript d key = (case d key of None \<Rightarrow> Inl KeyError | Some v \<Rightarrow> Inr v)"

definition host_result :: "bridge \<Rightarrow> env \<Rightarrow> task_result \<Rightarrow> exn + pydict" where
  "host_result self e r =
     (let uuid = task_uuid (result_task r)
      in case (if uuid \<in> dom (task_start_times self)
               then (case subscript (task_start_times self) uuid of
                       Inl x \<Rightarrow> Inl x
                     | Inr t0 \<Rightarrow> Inr (PFloat (now e - t0)))
               else Inr PNone) of
           Inl x \<Rightarrow> Inl x
         | Inr duration \<Rightarrow>
             Inr [(''host'', PStr (host_name r)),
                  (''task'', PStr (task_name (result_task r))),
                  (''task_uuid'', PStr uuid),
                  (''action'', PStr (task_action (result_task r))),
                  (''changed'', dict_get (result_dict r) ''changed'' (PBool False)),
                  (''duration'',
                     if truthy duration then py_round2 duration else PNone),
                  (''result'', sanitize_result (float_repr e) (PDict (result_dict r)))])"

subsection \<open>Playbook hooks\<close>

text \<open>\<^verbatim>\<open>os.path.basename\<close>: what follows the last slash.\<close>

definition basename :: "string \<Rightarrow> string" where
  "basename p = rev (takeWhile (\<lambda>c. c \<noteq> CHR ''/'') (rev p))"

definition v2_playbook_on_start :: "bridge \<Rightarrow> env \<Rightarrow> string \<Rightarrow> outcome" where
  "v2_playbook_on_start self e file_name =
     send (self\<lparr>start_time := Some (now e)\<rparr>) e ''playbook_start''
       (PDict [(''playbook'', PStr (basename file_name)), (''path'', PStr file_name)])"

record play =
  play_name :: string
  play_uuid :: string
  play_hosts :: pyval
  play_serial :: pyval

fun is_list :: "pyval \<Rightarrow> bool" where
  "is_list (PList xs) = True"
| "is_list v = False"

definition v2_playbook_on_play_start :: "bridge \<Rightarrow> env \<Rightarrow> play \<Rightarrow> outcome" where
  "v2_playbook_on_play_start self e p =
     send (self\<lparr>play_start_time := Some (now e)\<rparr>) e ''play_start''
       (PDict [(''name'', PStr (play_name p)),
               (''uuid'', PStr (play_uuid p)),
               (''hosts'', if is_list (play_hosts p) then play_hosts p else PList [play_hosts p]),
               (''serial'', play_serial p)])"

definition v2_playbook_on_task_start :: "bridge \<Rightarrow> env \<Rightarrow> task \<Rightarrow> bool \<Rightarrow> outcome" where
  "v2_playbook_on_task_start self e t is_conditional =
     send (self\<lparr>task_start_times := (task_start_times self)(task_uuid t \<mapsto> now e)\<rparr>) e ''task_start''
       (PDict [(''name'', PStr (task_name t)),
               (''uuid'', PStr (task_uuid t)),
               (''action'', PStr (task_action t)),
               (''args'', case task_args t of Some a \<Rightarrow> PDict a | None \<Rightarrow> PDict []),
               (''path'', case task_path t of Some p \<Rightarrow> PStr p | None \<Rightarrow> PNone),
               (''is_handler'', PBool False)])"

definition v2_playbook_on_handler_task_start :: "bridge \<Rightarrow> env \<Rightarrow> task \<Rightarrow> outcome" where
  "v2_playbook_on_handler_task_start self e t =
     send (self\<lparr>task_start_times := (task_start_times self)(task_uuid t \<mapsto> now e)\<rparr>) e ''task_start''
       (PDict [(''name'', PStr (task_name t)),
               (''uuid'', PStr (task_uuid t)),
               (''action'', PStr (task_action t)),
               (''is_handler'', PBool True)])"

text \<open>
  The statistics object: the hosts of \<^verbatim>\<open>stats.processed\<close> in order, and what
  \<^verbatim>\<open>stats.summarize\<close> gives for a host.
\<close>

record stats =
  processed :: "string list"
  summarize :: "string \<Rightarrow> pydict"

definition host_summary :: "pydict \<Rightarrow> pyval" where
  "host_summary host_stats =
     PDict [(''ok'', dict_get host_stats ''ok'' (PInt 0)),
            (''changed'', dict_get host_stats ''changed'' (PInt 0)),
            (''failures'', dict_get host_stats ''failures'' (PInt 0)),
            (''unreachable'', dict_get host_stats ''unreachable'' (PInt 0)),
            (''skipped'', dict_get host_stats ''skipped'' (PInt 0)),
            (''rescued'', dict_get host_stats ''rescued'' (PInt 0)),
            (''ignored'', dict_get host_stats ''ignored'' (PInt 0))]"

fun summary_loop :: "stats \<Rightarrow> string list \<Rightarrow> pydict \<Rightarrow> pydict" where
  "summary_loop s [] summary = summary"
| "summary_loop s (host # hosts) summary =
     summary_loop s hosts (dict_set summary host (host_summary (summarize s host)))"

definition v2_playbook_on_stats :: "bridge \<Rightarrow> env \<Rightarrow> stats \<Rightarrow> outcome" where
  "v2_playbook_on_stats self e s =
     (let duration = (case start_time self of
                        Some t0 \<Rightarrow> if t0 \<noteq> 0 then PFloat (now e - t0) else PInt 0
                      | None \<Rightarrow> PInt 0);
          summary = summary_loop s (processed s) []
      in send self e ''playbook_complete''
           (PDict [(''stats'', PDict summary), (''duration'', py_round2 duration)]))"

definition v2_playbook_on_include :: "bridge \<Rightarrow> env \<Rightarrow> string \<Rightarrow> string list \<Rightarrow> outcome" where
  "v2_playbook_on_include self e filename hosts =
     send self e ''include''
       (PDict [(''file'', PStr filename), (''hosts'', PList (map PStr hosts))])"

subsection \<open>Runner, loop item, retry and diff hooks\<close>

definition v2_runner_on_start :: "bridge \<Rightarrow> env \<Rightarrow> string \<Rightarrow> task \<Rightarrow> outcome" where
  "v2_runner_on_start self e host t =
     send self e ''host_task_start''
       (PDict [(''host'', PStr host),
               (''task'', PStr (task_name t)),
               (''task_uuid'', PStr (task_uuid t))])"

definition v2_runner_on_ok :: "bridge \<Rightarrow> env \<Rightarrow> task_result \<Rightarrow> outcome" where
  "v2_runner_on_ok self e r =
     (case host_result self e r of
        Inl x \<Rightarrow> Inl x
      | Inr data \<Rightarrow> send self e ''host_ok'' (PDict data))"

definition v2_runner_on_failed :: "bridge \<Rightarrow> env \<Rightarrow> task_result \<Rightarrow> bool \<Rightarrow> outcome" where
  "v2_runner_on_failed self e r ignore_errors =
     (case host_result self e r of
        Inl x \<Rightarrow> Inl x
      | Inr data \<Rightarrow>
          send self e ''host_failed'' (PDict (dict_set data ''ignore_errors'' (PBool ignore_errors))))"

definition v2_runner_on_skipped :: "bridge \<Rightarrow> env \<Rightarrow> task_result \<Rightarrow> outcome" where
  "v2_runner_on_skipped self e r =
     (case host_result self e r of
        Inl x \<Rightarrow> Inl x
      | Inr data \<Rightarrow> send self e ''host_skipped'' (PDict data))"

definition v2_runner_on_unreachable :: "bridge \<Rightarrow> env \<Rightarrow> task_result \<Rightarrow> outcome" where
  "v2_runner_on_unreachable self e r =
     (case host_result self e r of
        Inl x \<Rightarrow> Inl x
      | Inr data \<Rightarrow> send self e ''host_unreachable'' (PDict data))"

definition v2_runner_item_on_ok :: "bridge \<Rightarrow> env \<Rightarrow> task_result \<Rightarrow> outcome" where
  "v2_runner_item_on_ok self e r =
     (case host_result self e r of
        Inl x \<Rightarrow> Inl x
      | Inr data \<Rightarrow>
          (let data1 = dict_set data ''item'' (dict_get (result_dict r) ''item'' (PStr []));
               data2 = dict_set data1 ''item_label''
                         (dict_get (result_dict r) ''ansible_loop_var'' (PStr ''item''))
           in send self e ''item_ok'' (PDict data2)))"

definition v2_runner_item_on_failed :: "bridge \<Rightarrow> env \<Rightarrow> task_result \<Rightarrow> outcome" where
  "v2_runner_item_on_failed self e r =
     (case host_result self e r of
        Inl x \<Rightarrow> Inl x
      | Inr data \<Rightarrow>
          send self e ''item_failed''
            (PDict (dict_set data ''item'' (dict_get (result_dict r) ''item'' (PStr [])))))"

definition v2_runner_item_on_skipped :: "bridge \<Rightarrow> env \<Rightarrow> task_result \<Rightarrow> outcome" where
  "v2_runner_item_on_skipped self e r =
     (case host_result self e r of
        Inl x \<Rightarrow> Inl x
      | Inr data \<Rightarrow>
          send self e ''item_skipped''
            (PDict (dict_set data ''item'' (dict_get (result_dict r) ''item'' (PStr [])))))"

definition v2_runner_retry :: "bridge \<Rightarrow> env \<Rightarrow> task_result \<Rightarrow> outcome" where
  "v2_runner_retry self e r =
     (case host_result self e r of
        Inl x \<Rightarrow> Inl x
      | Inr data \<Rightarrow>
          (let data1 = dict_set data ''retries'' (dict_get (result_dict r) ''retries'' (PInt 0));
               data2 = dict_set data1 ''attempts'' (dict_get (result_dict r) ''attempts'' (PInt 0))
           in send self e ''host_retry'' (PDict data2)))"

definition v2_on_file_diff :: "bridge \<Rightarrow> env \<Rightarrow> task_result \<Rightarrow> outcome" where
  "v2_on_file_diff self e r =
     (if truthy (dict_get (result_dict r) ''diff'' PNone)
      then send self e ''file_diff''
             (PDict [(''host'', PStr (host_name r)),
                     (''task'', PStr (task_name (result_task r))),
                     (''diff'', dict_get (result_dict r) ''diff'' PNone)])
      else Inr (self, []))"

subsection \<open>The hooks as the engine invokes them\<close>

datatype hook =
    Playbook_on_start string
  | Playbook_on_play_start play
  | Playbook_on_task_start task bool
  | Playbook_on_handler_task_start task
  | Playbook_on_stats stats
  | Playbook_on_include string "string list"
  | Runner_on_start string task
  | Runner_on_ok task_result
  | Runner_on_failed task_result bool
  | Runner_on_skipped task_result
  | Runner_on_unreachable task_result
  | Runner_item_on_ok task_result
  | Runner_item_on_failed task_result
  | Runner_item_on_skipped task_result
  | Runner_retry task_result
  | On_file_diff task_result

fun dispatch :: "bridge \<Rightarrow> env \<Rightarrow> hook \<Rightarrow> outcome" where
  "dispatch self e (Playbook_on_start file_name) = v2_playbook_on_start self e file_name"
| "dispatch self e (Playbook_on_play_start p) = v2_playbook_on_play_start self e p"
| "dispatch self e (Playbook_on_task_start t c) = v2_playbook_on_task_start self e t c"
| "dispatch self e (Playbook_on_handler_task_start t) = v2_playbook_on_handler_task_start self e t"
| "dispatch self e (Playbook_on_stats s) = v2_playbook_on_stats self e s"
| "dispatch self e (Playbook_on_include f hs) = v2_playbook_on_include self e f hs"
| "dispatch self e (Runner_on_start h t) = v2_runner_on_start self e h t"
| "dispatch self e (Runner_on_ok r) = v2_runner_on_ok self e r"
| "dispatch self e (Runner_on_failed r i) = v2_runner_on_failed self e r i"
| "dispatch self e (Runner_on_skipped r) = v2_runner_on_skipped self e r"
| "dispatch self e (Runner_on_unreachable r) = v2_runner_on_unreachable self e r"
| "dispatch self e (Runner_item_on_ok r) = v2_runner_item_on_ok self e r"
| "dispatch self e (Runner_item_on_failed r) = v2_runner_item_on_failed self e r"
| "dispatch self e (Runner_item_on_skipped r) = v2_runner_item_on_skipped self e r"
| "dispatch self e (Runner_retry r) = v2_runner_retry self e r"
| "dispatch self e (On_file_diff r) = v2_on_file_diff self e r"

subsection \<open>Example inputs\<close>

text \<open>
  A bridge connected at start, an environment whose socket accepts every write and one
  whose socket refuses every write, a task and a loop item result for it.
\<close>

definition ex_bridge :: bridge where
  "ex_bridge = init (Some ''/tmp/ansible-env.sock'') (\<lambda>path. Inr 3)"

definition ex_env :: env where
  "ex_env = \<lparr>now = 1700000000, utcnow_iso = ''2023-11-14T22:13:20.000123'',
             sendall = (\<lambda>bytes. None), float_repr = repr_hundredths\<rparr>"


definition ex_task :: task where
  "ex_task = \<lparr>task_name = ''Install nginx'', task_uuid = ''abc'', task_action = ''apt'',
              task_args = Some [(''name'', PStr ''nginx'')], task_path = Some ''site.yml:12''\<rparr>"


definition ex_stats :: stats where
  "ex_stats = \<lparr>processed = [''web1''],
               summarize = (\<lambda>host. [(''ok'', PInt 3), (''failures'', PInt 0), (''unreachable'', PInt 0),
                                      (''changed'', PInt 1), (''skipped'', PInt 2), (''rescued'', PInt 0),
                                      (''ignored'', PInt 0)])\<rparr>"



section \<open>Well-formed JSON\<close>













section \<open>Properties of the sanitizer\<close>

lemma map_of_dict_set: "map_of (dict_set d k v) = (map_of d)(k \<mapsto> v)"
  by (simp add: dict_set_def update_conv')

lemma sanitize_items_lookup:
  "distinct (map fst items) \<Longrightarrow>
   map_of (sanitize_items fr items acc) k =
     (case map_of items k of
        None \<Rightarrow> map_of acc k
      | Some v \<Rightarrow>
          if k \<in> omit_keys then map_of acc k
          else if is_str v \<and> length (str_val v) > 5000
            then Some (PStr (take 5000 (str_val v) @ truncated_marker))
          else if is_dict_or_list v \<and> length (py_str fr v) > 10000
            then Some (PStr omitted_marker)
          else Some v)"
proof (induction items arbitrary: acc)
  case Nil
  show ?case by simp
next
  case (Cons kv items)
  obtain key val where kv: "kv = (key, val)" by (cases kv)
  from Cons.prems kv have d: "distinct (map fst items)" and nk: "key \<notin> fst ` set items"
    by auto
  from nk have none: "map_of items key = None"
    by (simp add: map_of_eq_None_iff)
  show ?case
  proof (cases "k = key")
    case True
    with none Cons.IH [OF d] show ?thesis
      by (simp add: kv map_of_dict_set)
  next
    case False
    then show ?thesis
      by (simp add: kv Cons.IH [OF d] map_of_dict_set split: option.split)
  qed
qed

lemma keys_dict_set: "fst ` set (dict_set d k v) = insert k (fst ` set d)"
  by (simp add: dict_set_def dom_update)

lemma sanitize_items_keys:
  "fst ` set (sanitize_items fr items acc) \<subseteq> fst ` set acc \<union> (fst ` set items - omit_keys)"
proof (induction items arbitrary: acc)
  case Nil
  show ?case by simp
next
  case (Cons kv items)
  obtain key val where kv: "kv = (key, val)" by (cases kv)
  show ?case
    unfolding kv sanitize_items.simps
    using Cons.IH [of acc]
      Cons.IH [of "dict_set acc key (PStr (take 5000 (str_val val) @ truncated_marker))"]
      Cons.IH [of "dict_set acc key (PStr omitted_marker)"]
      Cons.IH [of "dict_set acc key val"]
    by (auto simp: keys_dict_set)
qed

lemma sanitize_result_omits: "k \<in> omit_keys \<Longrightarrow> k \<notin> keys (sanitize_result fr (PDict items))"
  using sanitize_items_keys [of fr items "[]"]
  by (auto simp: keys_def sanitize_result_def)

lemma sanitize_result_lookup:
  assumes "distinct (map fst items)" and "(key, v) \<in> set items"
  shows "lookup (sanitize_result fr (PDict items)) key =
     (if key \<in> omit_keys then None
      else if is_str v \<and> 5000 < length (str_val v)
        then Some (PStr (take 5000 (str_val v) @ truncated_marker))
      else if is_dict_or_list v \<and> 10000 < length (py_str fr v)
        then Some (PStr omitted_marker)
      else Some v)"
proof -
  from assms have "map_of items key = Some v" by simp
  then show ?thesis
    by (simp add: lookup_def sanitize_result_def sanitize_items_lookup [OF assms(1)])
qed

lemma length_truncated_marker: "length truncated_marker = 16"
  by (simp add: truncated_marker_def)

lemma length_join_ge: "sum_list (map length xs) \<le> length (join sep xs)"
  by (induction sep xs rule: join.induct) simp_all

lemma show_nat_0: "show_nat 0 = ''0''"
  by (simp add: show_nat.simps [of 0] digit_char_def)

text \<open>
  C1 (as amended). For a mapping and a key other than \<^verbatim>\<open>ansible_facts\<close> and \<^verbatim>\<open>ansible_env\<close>
  whose value is a string of more than 5000 characters, the sanitized value is the
  first 5000 characters followed by the marker, a newline and \<^verbatim>\<open>... [truncated]\<close>; the
  marker has 16 characters, so the sanitized string has 5016.
\<close>

theorem sanitize_long_string:
  assumes "distinct (map fst items)" and "(key, PStr s) \<in> set items"
    and "key \<notin> omit_keys" and "5000 < length s"
  shows "lookup (sanitize_result fr (PDict items)) key = Some (PStr (take 5000 s @ truncated_marker))
    \<and> length (take 5000 s @ truncated_marker) = 5016
    \<and> truncated_marker = CHR 0x0A # ''... [truncated]''"
proof -
  have "lookup (sanitize_result fr (PDict items)) key = Some (PStr (take 5000 s @ truncated_marker))"
    using sanitize_result_lookup [OF assms(1,2), of fr] assms(3,4) by simp
  moreover have "length (take 5000 s @ truncated_marker) = 5016"
    using assms(4) by (simp add: length_truncated_marker)
  moreover have "truncated_marker = CHR 0x0A # ''... [truncated]''"
    by (simp add: truncated_marker_def newline_def)
  ultimately show ?thesis by simp
qed

theorem sanitize_long_string_witness:
  "distinct (map fst [(''stdout'', PStr (replicate 6000 CHR ''a''))])
   \<and> (''stdout'', PStr (replicate 6000 CHR ''a'')) \<in> set [(''stdout'', PStr (replicate 6000 CHR ''a''))]
   \<and> ''stdout'' \<notin> omit_keys \<and> 5000 < length (replicate 6000 CHR ''a'')
   \<and> lookup (sanitize_result repr_hundredths (PDict [(''stdout'', PStr (replicate 6000 CHR ''a''))]))
        ''stdout''
      = Some (PStr (replicate 5000 CHR ''a'' @ CHR 0x0A # ''... [truncated]''))
   \<and> length (replicate 5000 CHR ''a'' @ CHR 0x0A # ''... [truncated]'') = 5016"
  using sanitize_long_string [of "[(''stdout'', PStr (replicate 6000 CHR ''a''))]" "''stdout''"
      "replicate 6000 CHR ''a''" repr_hundredths]
  by (simp add: omit_keys_def)

text \<open>
  C1 as stated fails: a string of 6000 characters under the key \<^verbatim>\<open>stdout\<close> comes out
  with 5016 characters, not 5017, and one under the key \<^verbatim>\<open>ansible_env\<close> has no sanitized
  value at all.
\<close>

theorem sanitize_long_string_counterexample:
  "lookup (sanitize_result repr_hundredths (PDict [(''stdout'', PStr (replicate 6000 CHR ''a''))]))
      ''stdout''
     = Some (PStr (replicate 5000 CHR ''a'' @ CHR 0x0A # ''... [truncated]''))
   \<and> length (replicate 5000 CHR ''a'' @ CHR 0x0A # ''... [truncated]'') \<noteq> 5017
   \<and> lookup (sanitize_result repr_hundredths (PDict [(''ansible_env'', PStr (replicate 6000 CHR ''a''))]))
      ''ansible_env''
     = None"
  by (simp add: lookup_def sanitize_result_def omit_keys_def dict_set_def truncated_marker_def
      newline_def)

text \<open>
  C3. The keys \<^verbatim>\<open>ansible_facts\<close> and \<^verbatim>\<open>ansible_env\<close> are never keys of the sanitized
  mapping, and every other key whose value is neither a string of more than 5000
  characters nor a dict or list whose text has more than 10000 keeps its value as it
  is.
\<close>

theorem sanitize_omits_and_preserves:
  "''ansible_facts'' \<notin> keys (sanitize_result fr (PDict items))
   \<and> ''ansible_env'' \<notin> keys (sanitize_result fr (PDict items))
   \<and> (distinct (map fst items) \<and> (key, v) \<in> set items \<and> key \<notin> omit_keys
        \<and> \<not> (is_str v \<and> 5000 < length (str_val v))
        \<and> \<not> (is_dict_or_list v \<and> 10000 < length (py_str fr v))
      \<longrightarrow> lookup (sanitize_result fr (PDict items)) key = Some v)"
proof -
  have "''ansible_facts'' \<notin> keys (sanitize_result fr (PDict items))"
    by (rule sanitize_result_omits) (simp add: omit_keys_def)
  moreover have "''ansible_env'' \<notin> keys (sanitize_result fr (PDict items))"
    by (rule sanitize_result_omits) (simp add: omit_keys_def)
  moreover have "lookup (sanitize_result fr (PDict items)) key = Some v"
    if "distinct (map fst items)" and "(key, v) \<in> set items" and "key \<notin> omit_keys"
      and "\<not> (is_str v \<and> 5000 < length (str_val v))"
      and "\<not> (is_dict_or_list v \<and> 10000 < length (py_str fr v))"
    using sanitize_result_lookup [OF that(1,2), of fr] that(3,4,5) by simp
  ultimately show ?thesis by blast
qed

theorem sanitize_omits_and_preserves_witness:
  "''ansible_facts'' \<notin> keys (sanitize_result repr_hundredths
      (PDict [(''ansible_facts'', PDict [(''os'', PStr (replicate 20000 CHR ''x''))]), (''msg'', PStr ''ok'')]))
   \<and> distinct (map fst [(''ansible_facts'', PDict [(''os'', PStr (replicate 20000 CHR ''x''))]),
        (''msg'', PStr ''ok'')])
   \<and> ''msg'' \<notin> omit_keys
   \<and> lookup (sanitize_result repr_hundredths
      (PDict [(''ansible_facts'', PDict [(''os'', PStr (replicate 20000 CHR ''x''))]), (''msg'', PStr ''ok'')]))
      ''msg'' = Some (PStr ''ok'')"
  using sanitize_omits_and_preserves [of repr_hundredths
      "[(''ansible_facts'', PDict [(''os'', PStr (replicate 20000 CHR ''x''))]), (''msg'', PStr ''ok'')]"
      "''msg''" "PStr ''ok''"]
  by (simp add: omit_keys_def)

text \<open>
  C4. For a key of the mapping the three checks are tried in the order of the source:
  an omitted key has no sanitized value, whatever its value; else a string of more than
  5000 characters is truncated; else a dict or list whose text has more than 10000
  characters is replaced by the marker \<^verbatim>\<open>[large data omitted]\<close>; else the value is kept. No
  value is both a string and a dict or list, so one transformation at most applies.
\<close>

theorem sanitize_large_structure:
  assumes "distinct (map fst items)" and "(key, v) \<in> set items"
  shows "lookup (sanitize_result fr (PDict items)) key =
       (if key \<in> omit_keys then None
        else if is_str v \<and> 5000 < length (str_val v)
          then Some (PStr (take 5000 (str_val v) @ truncated_marker))
        else if is_dict_or_list v \<and> 10000 < length (py_str fr v)
          then Some (PStr omitted_marker)
        else Some v)
    \<and> \<not> (is_str v \<and> is_dict_or_list v)
    \<and> (key \<notin> omit_keys \<and> is_dict_or_list v \<and> 10000 < length (py_str fr v)
         \<longrightarrow> lookup (sanitize_result fr (PDict items)) key = Some (PStr ''[large data omitted]''))"
proof -
  have excl: "\<not> (is_str v \<and> is_dict_or_list v)"
    by (cases v) simp_all
  have look: "lookup (sanitize_result fr (PDict items)) key =
       (if key \<in> omit_keys then None
        else if is_str v \<and> 5000 < length (str_val v)
          then Some (PStr (take 5000 (str_val v) @ truncated_marker))
        else if is_dict_or_list v \<and> 10000 < length (py_str fr v)
          then Some (PStr omitted_marker)
        else Some v)"
    by (rule sanitize_result_lookup [OF assms])
  have "lookup (sanitize_result fr (PDict items)) key = Some (PStr ''[large data omitted]'')"
    if "key \<notin> omit_keys" and "is_dict_or_list v" and "10000 < length (py_str fr v)"
    using look that excl by (auto simp: omitted_marker_def)
  with excl look show ?thesis by blast
qed

theorem sanitize_large_structure_witness:
  "distinct (map fst [(''results'', PList (replicate 10001 (PInt 0)))])
   \<and> (''results'', PList (replicate 10001 (PInt 0))) \<in> set [(''results'', PList (replicate 10001 (PInt 0)))]
   \<and> ''results'' \<notin> omit_keys
   \<and> is_dict_or_list (PList (replicate 10001 (PInt 0)))
   \<and> 10000 < length (py_str repr_hundredths (PList (replicate 10001 (PInt 0))))
   \<and> lookup (sanitize_result repr_hundredths (PDict [(''results'', PList (replicate 10001 (PInt 0)))]))
        ''results'' = Some (PStr ''[large data omitted]'')"
proof -
  have "sum_list (map length (map (py_repr repr_hundredths) (replicate 10001 (PInt 0))))
      \<le> length (join '', '' (map (py_repr repr_hundredths) (replicate 10001 (PInt 0))))"
    by (rule length_join_ge)
  then have big: "10000 < length (py_str repr_hundredths (PList (replicate 10001 (PInt 0))))"
    by (simp add: py_str_def show_int_def show_nat_0 sum_list_replicate)
  show ?thesis
    using sanitize_large_structure [of "[(''results'', PList (replicate 10001 (PInt 0)))]"
        "''results''" "PList (replicate 10001 (PInt 0))" repr_hundredths] big
    by (simp add: omit_keys_def omitted_marker_def)
qed

section \<open>Properties of the hooks\<close>

lemma send_Inr: "\<exists>out. send self e event_type data = Inr (self, out)"
  by (simp add: send_def split: sum.split)

lemma send_written:
  "sock self \<noteq> None \<Longrightarrow> sendall e (encode_utf8 (message e event_type data)) = None \<Longrightarrow>
   send self e event_type data = Inr (self, [encode_utf8 (message e event_type data)])"
  by (simp add: send_def send_try_def)

lemma host_result_Inr:
  "host_result self e r =
     Inr [(''host'', PStr (host_name r)),
          (''task'', PStr (task_name (result_task r))),
          (''task_uuid'', PStr (task_uuid (result_task r))),
          (''action'', PStr (task_action (result_task r))),
          (''changed'', dict_get (result_dict r) ''changed'' (PBool False)),
          (''duration'',
             case task_start_times self (task_uuid (result_task r)) of
               None \<Rightarrow> PNone
             | Some t0 \<Rightarrow> if now e - t0 = 0 then PNone else PFloat (round2 (now e - t0))),
          (''result'', sanitize_result (float_repr e) (PDict (result_dict r)))]"
  by (simp add: host_result_def subscript_def dom_def split: option.split)

lemma round2_example: "round2 (234 / 100) = 234 / 100"
  by (simp add: round2_def round_half_even_def)

lemma ex_bridge_eq:
  "ex_bridge = \<lparr>sock = Some 3, start_time = None, play_start_time = None,
                task_start_times = Map.empty\<rparr>"
  by (simp add: ex_bridge_def init_def)

text \<open>
  C2 fails on the code at a result whose clock reading equals the recorded start: the
  task start hook records the identifier, the identifier is in the timing table, and
  the duration of the host result is \<^verbatim>\<open>None\<close>, because the source tests the truth value
  of the elapsed time and \<^verbatim>\<open>0.0\<close> is false.
\<close>

theorem zero_elapsed_duration_null:
  "\<exists>out data.
     v2_playbook_on_task_start self e (result_task r) c
       = Inr (self\<lparr>task_start_times := (task_start_times self)(task_uuid (result_task r) \<mapsto> now e)\<rparr>, out)
   \<and> task_uuid (result_task r)
       \<in> dom (task_start_times
           (self\<lparr>task_start_times := (task_start_times self)(task_uuid (result_task r) \<mapsto> now e)\<rparr>))
   \<and> host_result
        (self\<lparr>task_start_times := (task_start_times self)(task_uuid (result_task r) \<mapsto> now e)\<rparr>) e r
       = Inr data
   \<and> map_of data ''duration'' = Some PNone"
proof -
  let ?self' = "self\<lparr>task_start_times := (task_start_times self)(task_uuid (result_task r) \<mapsto> now e)\<rparr>"
  obtain out where "v2_playbook_on_task_start self e (result_task r) c = Inr (?self', out)"
    unfolding v2_playbook_on_task_start_def using send_Inr by blast
  moreover have "task_uuid (result_task r) \<in> dom (task_start_times ?self')"
    by simp
  moreover obtain data where "host_result ?self' e r = Inr data" "map_of data ''duration'' = Some PNone"
    by (simp add: host_result_Inr)
  ultimately show ?thesis by blast
qed





text \<open>
  C7 (as amended). The payload of a \<^verbatim>\<open>host_task_start\<close> event has the three keys
  \<^verbatim>\<open>host\<close>, \<^verbatim>\<open>task\<close> and \<^verbatim>\<open>task_uuid\<close>, holding the host name, the task name and the
  task identifier, and no other; on a connected socket that accepts the write, the
  event with that payload is what is written. The fields name, uuid, action, args,
  path and is_handler are those of the \<^verbatim>\<open>task_start\<close> event of the task start hook.
\<close>

theorem host_task_start_payload:
  "v2_runner_on_start self e host t
     = send self e ''host_task_start''
         (PDict [(''host'', PStr host), (''task'', PStr (task_name t)), (''task_uuid'', PStr (task_uuid t))])
   \<and> keys (PDict [(''host'', PStr host), (''task'', PStr (task_name t)), (''task_uuid'', PStr (task_uuid t))])
     = {''host'', ''task'', ''task_uuid''}
   \<and> (sock self \<noteq> None
        \<and> sendall e (encode_utf8 (message e ''host_task_start''
             (PDict [(''host'', PStr host), (''task'', PStr (task_name t)), (''task_uuid'', PStr (task_uuid t))])))
          = None
      \<longrightarrow> v2_runner_on_start self e host t
          = Inr (self, [encode_utf8 (message e ''host_task_start''
             (PDict [(''host'', PStr host), (''task'', PStr (task_name t)), (''task_uuid'', PStr (task_uuid t))]))]))
   \<and> v2_playbook_on_task_start self e t c
     = send (self\<lparr>task_start_times := (task_start_times self)(task_uuid t \<mapsto> now e)\<rparr>) e ''task_start''
         (PDict [(''name'', PStr (task_name t)),
                 (''uuid'', PStr (task_uuid t)),
                 (''action'', PStr (task_action t)),
                 (''args'', case task_args t of Some a \<Rightarrow> PDict a | None \<Rightarrow> PDict []),
                 (''path'', case task_path t of Some p \<Rightarrow> PStr p | None \<Rightarrow> PNone),
                 (''is_handler'', PBool False)])"
  by (simp add: v2_runner_on_start_def v2_playbook_on_task_start_def keys_def send_written)

lemma ex_host_task_start_line:
  \<open>encode_utf8 (message ex_env ''host_task_start''
      (PDict [(''host'', PStr ''web1''), (''task'', PStr ''Install nginx''), (''task_uuid'', PStr ''abc'')]))
   = ''{"type": "host_task_start", "timestamp": "2023-11-14T22:13:20.000123Z", "data": {"host": "web1", "task": "Install nginx", "task_uuid": "abc"}}''
     @ [CHR 0x0A]\<close>
  by (simp add: message_def envelope_def py_or_def ex_env_def json_str_def json_escape_char_def
      dquote_def bslash_def encode_utf8_def utf8_char_def newline_def)

theorem host_task_start_payload_witness:
  \<open>sock ex_bridge \<noteq> None
   \<and> sendall ex_env (encode_utf8 (message ex_env ''host_task_start''
        (PDict [(''host'', PStr ''web1''), (''task'', PStr (task_name ex_task)),
                (''task_uuid'', PStr (task_uuid ex_task))]))) = None
   \<and> v2_runner_on_start ex_bridge ex_env ''web1'' ex_task
     = Inr (ex_bridge,
        [''{"type": "host_task_start", "timestamp": "2023-11-14T22:13:20.000123Z", "data": {"host": "web1", "task": "Install nginx", "task_uuid": "abc"}}''
           @ [CHR 0x0A]])\<close>
proof -
  have s: "sock ex_bridge \<noteq> None"
    by (simp add: ex_bridge_eq)
  have w: "\<And>b. sendall ex_env b = None"
    by (simp add: ex_env_def)
  have t: "task_name ex_task = ''Install nginx''" "task_uuid ex_task = ''abc''"
    by (simp_all add: ex_task_def)
  from host_task_start_payload [of ex_bridge ex_env "''web1''" ex_task False] s w
  have "v2_runner_on_start ex_bridge ex_env ''web1'' ex_task
      = Inr (ex_bridge, [encode_utf8 (message ex_env ''host_task_start''
           (PDict [(''host'', PStr ''web1''), (''task'', PStr (task_name ex_task)),
                   (''task_uuid'', PStr (task_uuid ex_task))]))])"
    by blast
  with s w show ?thesis
    by (simp add: t ex_host_task_start_line)
qed

text \<open>
  C7 as stated fails: the \<^verbatim>\<open>host_task_start\<close> event written for host \<^verbatim>\<open>web1\<close> and the
  example task has neither action, nor args, nor path, nor is_handler, and its task
  name and identifier stand under \<^verbatim>\<open>task\<close> and \<^verbatim>\<open>task_uuid\<close>, not \<^verbatim>\<open>name\<close> and \<^verbatim>\<open>uuid\<close>.
\<close>

theorem host_task_start_payload_counterexample:
  \<open>v2_runner_on_start ex_bridge ex_env ''web1'' ex_task
     = Inr (ex_bridge,
        [''{"type": "host_task_start", "timestamp": "2023-11-14T22:13:20.000123Z", "data": {"host": "web1", "task": "Install nginx", "task_uuid": "abc"}}''
           @ [CHR 0x0A]])
   \<and> ''action'' \<notin> keys (PDict [(''host'', PStr ''web1''), (''task'', PStr ''Install nginx''),
                                 (''task_uuid'', PStr ''abc'')])\<close>
proof -
  have "v2_runner_on_start ex_bridge ex_env ''web1'' ex_task
     = Inr (ex_bridge, [encode_utf8 (message ex_env ''host_task_start''
         (PDict [(''host'', PStr ''web1''), (''task'', PStr ''Install nginx''), (''task_uuid'', PStr ''abc'')]))])"
    by (simp add: v2_runner_on_start_def send_def send_try_def ex_bridge_eq ex_task_def)
       (simp add: ex_env_def)
  then show ?thesis
    by (simp add: ex_host_task_start_line keys_def)
qed

text \<open>
  C8 fails on the code for \<^verbatim>\<open>item_failed\<close> and \<^verbatim>\<open>item_skipped\<close>: their payload is the host
  result with the key \<^verbatim>\<open>item\<close> added and no key \<^verbatim>\<open>item_label\<close>, while the payload of
  \<^verbatim>\<open>item_ok\<close> has both.
\<close>

theorem item_failed_payload_has_no_label:
  "\<exists>data. host_result self e r = Inr data
     \<and> v2_runner_item_on_failed self e r
         = send self e ''item_failed''
             (PDict (dict_set data ''item'' (dict_get (result_dict r) ''item'' (PStr []))))
     \<and> v2_runner_item_on_skipped self e r
         = send self e ''item_skipped''
             (PDict (dict_set data ''item'' (dict_get (result_dict r) ''item'' (PStr []))))
     \<and> keys (PDict (dict_set data ''item'' (dict_get (result_dict r) ''item'' (PStr []))))
         = {''host'', ''task'', ''task_uuid'', ''action'', ''changed'', ''duration'', ''result'', ''item''}
     \<and> ''item_label'' \<notin> keys (PDict (dict_set data ''item'' (dict_get (result_dict r) ''item'' (PStr []))))
     \<and> v2_runner_item_on_ok self e r
         = send self e ''item_ok''
             (PDict (dict_set (dict_set data ''item'' (dict_get (result_dict r) ''item'' (PStr [])))
                ''item_label'' (dict_get (result_dict r) ''ansible_loop_var'' (PStr ''item''))))
     \<and> ''item_label'' \<in> keys
           (PDict (dict_set (dict_set data ''item'' (dict_get (result_dict r) ''item'' (PStr [])))
              ''item_label'' (dict_get (result_dict r) ''ansible_loop_var'' (PStr ''item''))))"
  by (simp add: host_result_Inr v2_runner_item_on_failed_def v2_runner_item_on_skipped_def
      v2_runner_item_on_ok_def keys_def keys_dict_set insert_commute)

text \<open>
  C10. When no run start time has been recorded, the statistics hook returns without an
  exception and hands \<^verbatim>\<open>_send\<close> a \<^verbatim>\<open>playbook_complete\<close> event whose duration is the
  integer 0; on a connected socket that accepts the write, that event is written.
\<close>

theorem stats_without_start_time:
  assumes "start_time self = None"
  shows "v2_playbook_on_stats self e s
       = send self e ''playbook_complete''
           (PDict [(''stats'', PDict (summary_loop s (processed s) [])), (''duration'', PInt 0)])
    \<and> (\<exists>out. v2_playbook_on_stats self e s = Inr (self, out))
    \<and> (sock self \<noteq> None
         \<and> sendall e (encode_utf8 (message e ''playbook_complete''
              (PDict [(''stats'', PDict (summary_loop s (processed s) [])), (''duration'', PInt 0)])))
           = None
       \<longrightarrow> v2_playbook_on_stats self e s
           = Inr (self, [encode_utf8 (message e ''playbook_complete''
              (PDict [(''stats'', PDict (summary_loop s (processed s) [])), (''duration'', PInt 0)]))]))"
proof -
  have eq: "v2_playbook_on_stats self e s
       = send self e ''playbook_complete''
           (PDict [(''stats'', PDict (summary_loop s (processed s) [])), (''duration'', PInt 0)])"
    using assms by (simp add: v2_playbook_on_stats_def)
  show ?thesis
    unfolding eq using send_Inr [of self e] by (simp add: send_written)
qed

lemma show_nat_digit: "n < 10 \<Longrightarrow> show_nat n = [digit_char n]"
  by (simp add: show_nat.simps [of n])

lemma ex_playbook_complete_line:
  \<open>encode_utf8 (message ex_env ''playbook_complete''
      (PDict [(''stats'', PDict (summary_loop ex_stats (processed ex_stats) [])), (''duration'', PInt 0)]))
   = ''{"type": "playbook_complete", "timestamp": "2023-11-14T22:13:20.000123Z", "data": {"stats": {"web1": {"ok": 3, "changed": 1, "failures": 0, "unreachable": 0, "skipped": 2, "rescued": 0, "ignored": 0}}, "duration": 0}}''
     @ [CHR 0x0A]\<close>
  by (simp add: message_def envelope_def py_or_def ex_env_def ex_stats_def host_summary_def
      dict_set_def dict_get_def json_str_def json_escape_char_def show_int_def show_nat_digit
      digit_char_def dquote_def bslash_def encode_utf8_def utf8_char_def newline_def)

theorem stats_without_start_time_witness:
  \<open>start_time ex_bridge = None
   \<and> v2_playbook_on_stats ex_bridge ex_env ex_stats
     = Inr (ex_bridge,
        [''{"type": "playbook_complete", "timestamp": "2023-11-14T22:13:20.000123Z", "data": {"stats": {"web1": {"ok": 3, "changed": 1, "failures": 0, "unreachable": 0, "skipped": 2, "rescued": 0, "ignored": 0}}, "duration": 0}}''
           @ [CHR 0x0A]])\<close>
proof -
  have h: "start_time ex_bridge = None" and s: "sock ex_bridge \<noteq> None"
    by (simp_all add: ex_bridge_eq)
  have w: "\<And>b. sendall ex_env b = None"
    by (simp add: ex_env_def)
  from stats_without_start_time [OF h, of ex_env ex_stats] s w
  have "v2_playbook_on_stats ex_bridge ex_env ex_stats
      = Inr (ex_bridge, [encode_utf8 (message ex_env ''playbook_complete''
           (PDict [(''stats'', PDict (summary_loop ex_stats (processed ex_stats) [])),
                   (''duration'', PInt 0)]))])"
    by blast
  with h show ?thesis
    by (simp add: ex_playbook_complete_line)
qed

section \<open>Properties of the serialisation\<close>







































lemma dispatch_Inr: "\<exists>self' out. dispatch self e h = Inr (self', out)"
proof -
  have s: "\<exists>self' out. send s e et d = Inr (self', out)" for s et d
    using send_Inr [of s e et d] by blast
  show ?thesis
    by (cases h)
      (simp_all add: v2_playbook_on_start_def v2_playbook_on_play_start_def
        v2_playbook_on_task_start_def v2_playbook_on_handler_task_start_def
        v2_playbook_on_stats_def v2_playbook_on_include_def v2_runner_on_start_def
        v2_runner_on_ok_def v2_runner_on_failed_def v2_runner_on_skipped_def
        v2_runner_on_unreachable_def v2_runner_item_on_ok_def v2_runner_item_on_failed_def
        v2_runner_item_on_skipped_def v2_runner_retry_def v2_on_file_diff_def
        host_result_Inr s)
qed






end
